theory Spec2Isabelle
  imports Main "HOL-Library.Word"
begin

section \<open>EOF1 container header parsing (core/vm/eof.go)\<close>

text \<open>
  The byte buffer \<^verbatim>\<open>code []byte\<close> is a list of 8-bit words, the two header fields are
  16-bit words. Offsets are Go \<^verbatim>\<open>int\<close>s; they are bounded by the buffer length plus a
  small constant and never overflow 64 bits for a buffer that fits in memory, so they are
  natural numbers here.
\<close>

type_synonym byte = "8 word"
type_synonym uint16 = "16 word"

subsection \<open>Constants and data\<close>

definition eofFormatByte :: byte where
  "eofFormatByte = 0xEF"

definition eofMagic :: "byte list" where
  "eofMagic = [0xCA, 0xFE]"

definition eof1Version :: byte where
  "eof1Version = 1"

record eof1Header =
  codeSize :: uint16
  dataSize :: uint16

text \<open>The zero value \<^verbatim>\<open>eof1Header{}\<close>.\<close>

definition emptyHeader :: eof1Header where
  "emptyHeader = \<lparr>codeSize = 0, dataSize = 0\<rparr>"

text \<open>
  The error values \<^verbatim>\<open>ErrEOF1...\<close> are package-level variables declared beside the
  other errors of the package; only their identity matters here.
\<close>

datatype error =
    ErrEOF1InvalidFormatByte
  | ErrEOF1InvalidMagic
  | ErrEOF1InvalidVersion
  | ErrEOF1CodeSectionMissing
  | ErrEOF1CodeSectionSizeMissing
  | ErrEOF1MultipleCodeSections
  | ErrEOF1EmptyCodeSection
  | ErrEOF1DataSectionBeforeCodeSection
  | ErrEOF1DataSectionSizeMissing
  | ErrEOF1MultipleDataSections
  | ErrEOF1EmptyDataSection
  | ErrEOF1UnknownSection
  | ErrEOF1InvalidTotalSize

subsection \<open>Slices and big-endian reads\<close>

text \<open>
  \<^verbatim>\<open>code[lo:hi]\<close>. Go panics when the bounds are out of range; every use in the
  checked functions below is guarded by the length test the source makes first, and the
  unchecked reader makes the panic explicit.
\<close>

definition sliceOf :: "'a list \<Rightarrow> nat \<Rightarrow> nat \<Rightarrow> 'a list" where
  "sliceOf xs lo hi = take (hi - lo) (drop lo xs)"

text \<open>\<^verbatim>\<open>binary.BigEndian.Uint16(b)\<close>: \<^verbatim>\<open>uint16(b[1]) | uint16(b[0])<<8\<close>.\<close>

definition Uint16 :: "byte list \<Rightarrow> uint16" where
  "Uint16 b = or (ucast (b ! 1)) (push_bit 8 (ucast (b ! 0)))"

subsection \<open>Format detection\<close>

definition hasFormatByte :: "byte list \<Rightarrow> bool" where
  "hasFormatByte code \<longleftrightarrow> length code \<noteq> 0 \<and> code ! 0 = eofFormatByte"

definition hasEOFMagic :: "byte list \<Rightarrow> bool" where
  "hasEOFMagic code \<longleftrightarrow>
     (let magicLen = length eofMagic; codeLen = length code
      in 1 + magicLen \<le> codeLen \<and> sliceOf code 1 (1 + magicLen) = eofMagic)"

definition isEOFCode :: "byte list \<Rightarrow> bool" where
  "isEOFCode code \<longleftrightarrow> hasFormatByte code \<and> hasEOFMagic code"

subsection \<open>The header parser\<close>

text \<open>
  The section loop of \<^verbatim>\<open>readEOF1Header\<close>, from cursor \<open>i\<close> with the header built so
  far. An early \<^verbatim>\<open>return\<close> inside the loop is \<open>Inl\<close> of the returned pair; leaving the
  loop is \<open>Inr\<close> of the cursor and the header, tagged with the way the loop was left:
  \<^verbatim>\<open>break sectionLoop\<close> on a terminator byte, or the loop condition \<^verbatim>\<open>i < codeLen\<close>
  becoming false. The code after the loop does not look at the tag.
\<close>

datatype loop_exit = ByBreak | ByCondition

function sectionLoop ::
  "byte list \<Rightarrow> nat \<Rightarrow> eof1Header \<Rightarrow> (eof1Header \<times> error) + (loop_exit \<times> nat \<times> eof1Header)"
where
  "sectionLoop code i header =
     (if i < length code then
        (if code ! i = 0 then Inr (ByBreak, i + 1, header)
         else if code ! i = 1 then
           (if codeSize header \<noteq> 0 then Inl (emptyHeader, ErrEOF1MultipleCodeSections)
            else if i + 1 + 2 > length code then Inl (emptyHeader, ErrEOF1CodeSectionSizeMissing)
            else if Uint16 (sliceOf code (i + 1) (i + 1 + 2)) = 0
              then Inl (emptyHeader, ErrEOF1EmptyCodeSection)
            else sectionLoop code (i + 1 + 2)
                   (header\<lparr>codeSize := Uint16 (sliceOf code (i + 1) (i + 1 + 2))\<rparr>))
         else if code ! i = 2 then
           (if codeSize header = 0 then Inl (emptyHeader, ErrEOF1DataSectionBeforeCodeSection)
            else if dataSize header \<noteq> 0 then Inl (emptyHeader, ErrEOF1MultipleDataSections)
            else if i + 1 + 2 > length code then Inl (emptyHeader, ErrEOF1DataSectionSizeMissing)
            else if Uint16 (sliceOf code (i + 1) (i + 1 + 2)) = 0
              then Inl (emptyHeader, ErrEOF1EmptyDataSection)
            else sectionLoop code (i + 1 + 2)
                   (header\<lparr>dataSize := Uint16 (sliceOf code (i + 1) (i + 1 + 2))\<rparr>))
         else Inl (emptyHeader, ErrEOF1UnknownSection))
      else Inr (ByCondition, i, header))"
  by pat_completeness auto
termination
  by (relation "measure (\<lambda>(code, i, header). length code - i)") auto

declare sectionLoop.simps [simp del]

text \<open>
  \<^verbatim>\<open>readEOF1Header\<close> returns the pair \<^verbatim>\<open>(eof1Header, error)\<close>; a \<^verbatim>\<open>nil\<close> error is
  \<open>None\<close>.
\<close>

definition readEOF1Header :: "byte list \<Rightarrow> eof1Header \<times> error option" where
  "readEOF1Header code =
     (if \<not> hasFormatByte code then (emptyHeader, Some ErrEOF1InvalidFormatByte)
      else if \<not> hasEOFMagic code then (emptyHeader, Some ErrEOF1InvalidMagic)
      else if 1 + length eofMagic \<ge> length code \<or> code ! (1 + length eofMagic) \<noteq> eof1Version
        then (emptyHeader, Some ErrEOF1InvalidVersion)
      else
        (case sectionLoop code (1 + length eofMagic + 1) emptyHeader of
           Inl (h, e) \<Rightarrow> (h, Some e)
         | Inr (ex, i, header) \<Rightarrow>
             if codeSize header = 0 then (emptyHeader, Some ErrEOF1CodeSectionMissing)
             else if i + unat (codeSize header) + unat (dataSize header) \<noteq> length code
               then (emptyHeader, Some ErrEOF1InvalidTotalSize)
             else (header, None)))"

definition validateEOF :: "byte list \<Rightarrow> bool" where
  "validateEOF code \<longleftrightarrow> (case readEOF1Header code of (_, err) \<Rightarrow> err = None)"

subsection \<open>The unchecked reader\<close>

text \<open>
  \<^verbatim>\<open>readValidEOF1Header\<close> makes no length test. A slice or an index out of range is
  a run-time panic, which is \<open>None\<close> here. Go tests the upper bound of a slice
  expression against the capacity; the buffer's capacity is taken to be its length,
  which is the stricter test.
\<close>

definition readValidEOF1Header :: "byte list \<Rightarrow> eof1Header option" where
  "readValidEOF1Header code =
     (let codeSizeOffset = 3 + length eofMagic in
      if codeSizeOffset + 2 > length code then None
      else
        let header = emptyHeader\<lparr>codeSize := Uint16 (sliceOf code codeSizeOffset (codeSizeOffset + 2))\<rparr> in
        if codeSizeOffset + 2 \<ge> length code then None
        else if code ! (codeSizeOffset + 2) = 2 then
          (let dataSizeOffset = codeSizeOffset + 3 in
           if dataSizeOffset + 2 > length code then None
           else Some (header\<lparr>dataSize := Uint16 (sliceOf code dataSizeOffset (dataSizeOffset + 2))\<rparr>))
        else Some header)"

section \<open>Basic facts\<close>

subsection \<open>Big-endian reads and slices\<close>

lemma Uint16_value:
  "unat (Uint16 [hi, lo]) = 256 * unat hi + unat lo"
proof -
  let ?l = "ucast lo :: uint16" and ?h = "push_bit 8 (ucast hi) :: uint16"
  have disj: "or ?l ?h = ?l + ?h"
    by (rule disjunctive_add [symmetric]) (auto simp: bit_simps dest: bit_imp_le_length)
  have hb: "unat hi < 256" and lb: "unat lo < 256"
    using unsigned_less [of hi, where 'a = nat] unsigned_less [of lo, where 'a = nat] by simp_all
  have l: "unat ?l = unat lo"
    using lb by (simp add: unsigned_ucast_eq take_bit_nat_eq_self)
  have uh: "unat (ucast hi :: uint16) = unat hi"
    using hb by (simp add: unsigned_ucast_eq take_bit_nat_eq_self)
  have "unat ?h = take_bit 16 (push_bit 8 (unat (ucast hi :: uint16)))"
    by (simp only: unsigned_push_bit_eq len_bit0 len_num1 mult_numeral_left_semiring_numeral mult_1_right numeral_times_numeral)
       simp
  also have "\<dots> = take_bit 16 (256 * unat hi)"
    by (simp only: uh push_bit_eq_mult) (simp add: mult.commute)
  also have "\<dots> = 256 * unat hi"
    using hb by (simp add: take_bit_nat_eq_self)
  finally have h: "unat ?h = 256 * unat hi" .
  have "unat (?l + ?h) = unat ?l + unat ?h"
    using hb lb by (subst unat_add_lem [THEN iffD1]) (simp_all add: l h)
  then show ?thesis
    by (simp add: Uint16_def disj l h)
qed

lemma sliceOf_two:
  "i + 2 \<le> length code \<Longrightarrow> sliceOf code i (i + 2) = [code ! i, code ! (i + 1)]"
proof -
  assume b: "i + 2 \<le> length code"
  then have "drop i code = code ! i # code ! (i + 1) # drop (i + 2) code"
    by (simp add: Cons_nth_drop_Suc)
  then show ?thesis
    by (simp add: sliceOf_def numeral_2_eq_2)
qed

lemma Uint16_at:
  "i + 2 \<le> length code \<Longrightarrow>
   unat (Uint16 (sliceOf code i (i + 2))) = 256 * unat (code ! i) + unat (code ! (i + 1))"
  by (simp only: sliceOf_two Uint16_value)

subsection \<open>The section loop\<close>

lemma sectionLoop_ByCondition:
  "sectionLoop code i h = Inr (ByCondition, j, h') \<Longrightarrow> length code \<le> j"
proof (induction code i h rule: sectionLoop.induct)
  case (1 code i header)
  from "1.prems" "1.IH" show ?case
    by (subst (asm) sectionLoop.simps) (auto split: if_splits)
qed

lemma sectionLoop_ByBreak:
  "sectionLoop code i h = Inr (ByBreak, j, h') \<Longrightarrow> i < j \<and> j \<le> length code \<and> code ! (j - 1) = 0"
proof (induction code i h rule: sectionLoop.induct)
  case (1 code i header)
  from "1.prems" "1.IH" show ?case
    by (subst (asm) sectionLoop.simps) (auto split: if_splits)
qed

lemma sectionLoop_Inl:
  "sectionLoop code i h = Inl (h', e) \<Longrightarrow> h' = emptyHeader"
proof (induction code i h rule: sectionLoop.induct)
  case (1 code i header)
  from "1.prems" "1.IH" show ?case
    by (subst (asm) sectionLoop.simps) (auto split: if_splits)
qed

lemma loop_accept_shape:
  assumes loop: "sectionLoop code 4 emptyHeader = Inr (ex, i, h)"
    and cs: "codeSize h \<noteq> 0"
    and tot: "i + unat (codeSize h) + unat (dataSize h) = length code"
  shows "code ! 4 = 1 \<and> 7 < length code \<and> codeSize h = Uint16 (sliceOf code 5 7) \<and> ex = ByBreak \<and>
         (code ! 7 = 0 \<and> i = 8 \<and> dataSize h = 0 \<or>
          code ! 7 = 2 \<and> 10 < length code \<and> code ! 10 = 0 \<and> i = 11 \<and> dataSize h \<noteq> 0 \<and>
            dataSize h = Uint16 (sliceOf code 8 10))"
  using assms
  by (simp add: sectionLoop.simps [of code 4] sectionLoop.simps [of code 7]
        sectionLoop.simps [of code 10] emptyHeader_def split: if_splits)
     (auto simp: unat_eq_0)

subsection \<open>Decomposing a run of the parser\<close>

lemma length_eofMagic: "length eofMagic = 2"
  by (simp add: eofMagic_def)

lemma readEOF1Header_unfold:
  "readEOF1Header code =
     (if \<not> hasFormatByte code then (emptyHeader, Some ErrEOF1InvalidFormatByte)
      else if \<not> hasEOFMagic code then (emptyHeader, Some ErrEOF1InvalidMagic)
      else if 3 \<ge> length code \<or> code ! 3 \<noteq> eof1Version
        then (emptyHeader, Some ErrEOF1InvalidVersion)
      else
        (case sectionLoop code 4 emptyHeader of
           Inl (h, e) \<Rightarrow> (h, Some e)
         | Inr (ex, i, header) \<Rightarrow>
             if codeSize header = 0 then (emptyHeader, Some ErrEOF1CodeSectionMissing)
             else if i + unat (codeSize header) + unat (dataSize header) \<noteq> length code
               then (emptyHeader, Some ErrEOF1InvalidTotalSize)
             else (header, None)))"
proof -
  have offs: "1 + length eofMagic = 3" "(3::nat) + 1 = 4"
    by (simp_all add: length_eofMagic)
  show ?thesis
    unfolding readEOF1Header_def offs by (rule refl)
qed

lemma readEOF1Header_ok_run:
  assumes "readEOF1Header code = (h, None)"
  shows "hasFormatByte code \<and> hasEOFMagic code \<and> 3 < length code \<and> code ! 3 = eof1Version \<and>
         (\<exists>ex i. sectionLoop code 4 emptyHeader = Inr (ex, i, h) \<and> codeSize h \<noteq> 0 \<and>
            i + unat (codeSize h) + unat (dataSize h) = length code)"
  using assms
  by (auto simp: readEOF1Header_unfold split: if_splits sum.splits prod.splits)

lemma readEOF1Header_after_loop:
  assumes "hasFormatByte code" "hasEOFMagic code" "3 < length code" "code ! 3 = eof1Version"
  shows "readEOF1Header code =
     (case sectionLoop code 4 emptyHeader of
        Inl (h, e) \<Rightarrow> (h, Some e)
      | Inr (ex, i, header) \<Rightarrow>
          if codeSize header = 0 then (emptyHeader, Some ErrEOF1CodeSectionMissing)
          else if i + unat (codeSize header) + unat (dataSize header) \<noteq> length code
            then (emptyHeader, Some ErrEOF1InvalidTotalSize)
          else (header, None))"
  using assms by (simp add: readEOF1Header_unfold)

text \<open>The equations that evaluate the parser on a concrete buffer.\<close>

lemmas eval_defs = readEOF1Header_unfold hasFormatByte_def hasEOFMagic_def eofFormatByte_def
  eofMagic_def eof1Version_def sliceOf_def sectionLoop.simps Uint16_def emptyHeader_def

section \<open>Properties of the format detectors\<close>

text \<open>
  C7. For every buffer: \<open>hasFormatByte\<close> holds iff the buffer is non-empty and its first
  byte is 0xEF; \<open>hasEOFMagic\<close> holds iff the buffer has at least 3 bytes and the bytes at
  offsets 1 and 2 are 0xCA and 0xFE; \<open>isEOFCode\<close> holds iff both do.
\<close>

theorem format_detectors:
  "(hasFormatByte code \<longleftrightarrow> code \<noteq> [] \<and> code ! 0 = 0xEF) \<and>
   (hasEOFMagic code \<longleftrightarrow> 3 \<le> length code \<and> code ! 1 = 0xCA \<and> code ! 2 = 0xFE) \<and>
   (isEOFCode code \<longleftrightarrow>
      (code \<noteq> [] \<and> code ! 0 = 0xEF) \<and> (3 \<le> length code \<and> code ! 1 = 0xCA \<and> code ! 2 = 0xFE))"
proof -
  have f: "hasFormatByte code \<longleftrightarrow> code \<noteq> [] \<and> code ! 0 = 0xEF"
    by (simp add: hasFormatByte_def eofFormatByte_def)
  have m: "hasEOFMagic code \<longleftrightarrow> 3 \<le> length code \<and> code ! 1 = 0xCA \<and> code ! 2 = 0xFE"
  proof (cases "3 \<le> length code")
    case True
    then have s: "sliceOf code 1 (1 + length eofMagic) = [code ! 1, code ! 2]"
      using sliceOf_two [of 1 code] by (simp add: length_eofMagic numeral_2_eq_2 numeral_3_eq_3)
    show ?thesis
      unfolding hasEOFMagic_def Let_def s using True by (simp add: eofMagic_def)
  next
    case False
    then show ?thesis
      by (simp add: hasEOFMagic_def Let_def length_eofMagic)
  qed
  show ?thesis
    by (simp only: isEOFCode_def f m)
qed

section \<open>Properties of the parser\<close>

text \<open>
  C8. On the empty buffer \<open>readEOF1Header\<close> fails with \<open>ErrEOF1InvalidFormatByte\<close>; on the
  one-byte buffer 0xEF it fails with \<open>ErrEOF1InvalidMagic\<close>.
\<close>

theorem readEOF1Header_boundary:
  "readEOF1Header [] = (emptyHeader, Some ErrEOF1InvalidFormatByte) \<and>
   readEOF1Header [0xEF] = (emptyHeader, Some ErrEOF1InvalidMagic)"
  by (simp add: readEOF1Header_def hasFormatByte_def hasEOFMagic_def eofFormatByte_def eofMagic_def)

text \<open>
  C9. On the nine bytes EF CA FE 01 01 00 01 00 00 \<open>readEOF1Header\<close> succeeds with
  \<open>codeSize = 1\<close> and \<open>dataSize = 0\<close>.
\<close>

theorem readEOF1Header_minimal:
  "readEOF1Header [0xEF, 0xCA, 0xFE, 0x01, 0x01, 0x00, 0x01, 0x00, 0x00]
     = (\<lparr>codeSize = 1, dataSize = 0\<rparr>, None)"
  by (simp add: readEOF1Header_unfold hasFormatByte_def hasEOFMagic_def eofFormatByte_def
        eofMagic_def eof1Version_def sliceOf_def sectionLoop.simps Uint16_def emptyHeader_def)

text \<open>
  C3. For every buffer, \<open>validateEOF\<close> is true iff \<open>readEOF1Header\<close> returns no error.
\<close>

theorem validateEOF_iff_parse_ok:
  "validateEOF code \<longleftrightarrow> snd (readEOF1Header code) = None"
  by (simp add: validateEOF_def split: prod.splits)

text \<open>
  C6. \<open>readEOF1Header\<close> is atomic: for every buffer it returns either a populated header
  (non-zero \<open>codeSize\<close>) with no error, or an error together with the zero header
  (\<open>codeSize = 0\<close> and \<open>dataSize = 0\<close>).
\<close>

theorem readEOF1Header_atomic:
  "(\<exists>h. readEOF1Header code = (h, None) \<and> codeSize h \<noteq> 0) \<or>
   (\<exists>h e. readEOF1Header code = (h, Some e) \<and> h = emptyHeader \<and>
           codeSize h = 0 \<and> dataSize h = 0)"
proof (cases "sectionLoop code 4 emptyHeader")
  case (Inl p)
  obtain h e where p: "p = (h, e)" by (cases p)
  with Inl sectionLoop_Inl have "h = emptyHeader" by blast
  with Inl p show ?thesis
    by (simp add: readEOF1Header_unfold emptyHeader_def)
next
  case (Inr r)
  obtain ex i h where "r = (ex, i, h)" by (cases r)
  with Inr show ?thesis
    by (simp add: readEOF1Header_unfold emptyHeader_def)
qed

theorem readEOF1Header_atomic_witness:
  "(\<exists>h. readEOF1Header [0xEF, 0xCA, 0xFE, 0x01, 0x01, 0x00, 0x01, 0x00, 0x00] = (h, None)
        \<and> codeSize h \<noteq> 0) \<and>
   (\<exists>h e. readEOF1Header [0xEF, 0xCA, 0xFE, 0x01, 0x01, 0x00, 0x01, 0x02, 0x00] = (h, Some e)
        \<and> h = emptyHeader \<and> codeSize h = 0 \<and> dataSize h = 0)"
proof -
  have a: "snd (readEOF1Header [0xEF, 0xCA, 0xFE, 0x01, 0x01, 0x00, 0x01, 0x00, 0x00]) = None"
    by (simp add: eval_defs)
  have b: "snd (readEOF1Header [0xEF, 0xCA, 0xFE, 0x01, 0x01, 0x00, 0x01, 0x02, 0x00])
             = Some ErrEOF1DataSectionSizeMissing"
    by (simp add: eval_defs)
  from readEOF1Header_atomic [of "[0xEF, 0xCA, 0xFE, 0x01, 0x01, 0x00, 0x01, 0x00, 0x00]"] a
       readEOF1Header_atomic [of "[0xEF, 0xCA, 0xFE, 0x01, 0x01, 0x00, 0x01, 0x02, 0x00]"] b
  show ?thesis by auto
qed

text \<open>
  C4. When the section loop reads a kind byte equal to 2 at cursor \<open>i\<close>, it makes these
  checks in this order: no code section recorded yet gives
  \<open>ErrEOF1DataSectionBeforeCodeSection\<close>; a data section already recorded gives
  \<open>ErrEOF1MultipleDataSections\<close>; fewer than 2 bytes left after the kind byte gives
  \<open>ErrEOF1DataSectionSizeMissing\<close>; a big-endian 16-bit size of 0 gives
  \<open>ErrEOF1EmptyDataSection\<close>; otherwise the size is recorded and the loop goes on two
  bytes further. An \<open>Inl\<close> of the loop is what \<open>readEOF1Header\<close> returns.
\<close>

theorem data_section_checks:
  assumes "i < length code" and "code ! i = 2"
  shows "sectionLoop code i header =
     (if codeSize header = 0 then Inl (emptyHeader, ErrEOF1DataSectionBeforeCodeSection)
      else if dataSize header \<noteq> 0 then Inl (emptyHeader, ErrEOF1MultipleDataSections)
      else if length code - (i + 1) < 2 then Inl (emptyHeader, ErrEOF1DataSectionSizeMissing)
      else if 256 * unat (code ! (i + 1)) + unat (code ! (i + 2)) = 0
        then Inl (emptyHeader, ErrEOF1EmptyDataSection)
      else sectionLoop code (i + 1 + 2)
             (header\<lparr>dataSize := of_nat (256 * unat (code ! (i + 1)) + unat (code ! (i + 2)))\<rparr>))"
proof (cases "i + 1 + 2 \<le> length code")
  case True
  then have v: "unat (Uint16 (sliceOf code (i + 1) (i + 1 + 2)))
                = 256 * unat (code ! (i + 1)) + unat (code ! (i + 2))"
    using Uint16_at [of "i + 1" code] by (simp add: add.commute)
  have "Uint16 (sliceOf code (i + 1) (i + 1 + 2))
          = of_nat (unat (Uint16 (sliceOf code (i + 1) (i + 1 + 2))))"
    by simp
  then have w: "Uint16 (sliceOf code (i + 1) (i + 1 + 2))
                = of_nat (256 * unat (code ! (i + 1)) + unat (code ! (i + 2)))"
    by (simp only: v)
  have z: "Uint16 (sliceOf code (i + 1) (i + 1 + 2)) = 0
           \<longleftrightarrow> 256 * unat (code ! (i + 1)) + unat (code ! (i + 2)) = 0"
    using v by (metis unat_eq_0)
  show ?thesis
    using assms True by (subst sectionLoop.simps) (simp only: w [symmetric] z [symmetric], auto)
next
  case False
  with assms show ?thesis
    by (subst sectionLoop.simps) auto
qed

theorem data_section_checks_witness:
  "(7::nat) < length [0xEF, 0xCA, 0xFE, 0x01, 0x01, 0x00, 0x01, 0x02, 0x00 :: byte] \<and>
   [0xEF, 0xCA, 0xFE, 0x01, 0x01, 0x00, 0x01, 0x02, 0x00 :: byte] ! 7 = 2 \<and>
   sectionLoop [0xEF, 0xCA, 0xFE, 0x01, 0x01, 0x00, 0x01, 0x02, 0x00] 7 \<lparr>codeSize = 1, dataSize = 0\<rparr>
     = Inl (emptyHeader, ErrEOF1DataSectionSizeMissing)"
proof -
  let ?c = "[0xEF, 0xCA, 0xFE, 0x01, 0x01, 0x00, 0x01, 0x02, 0x00] :: byte list"
  have a: "7 < length ?c" and b: "?c ! 7 = 2"
    by simp_all
  from data_section_checks [OF a b, of "\<lparr>codeSize = 1, dataSize = 0\<rparr>"] show ?thesis
    by simp
qed

text \<open>
  C5. A buffer that passes the format, magic and version tests and whose section loop ends
  because the cursor reached the end of the buffer, with no terminator byte read, is
  rejected: with \<open>ErrEOF1CodeSectionMissing\<close> if no code section was recorded, with
  \<open>ErrEOF1InvalidTotalSize\<close> otherwise.
\<close>

theorem scan_exhausted_rejected:
  assumes "hasFormatByte code" and "hasEOFMagic code"
    and "3 < length code" and "code ! 3 = eof1Version"
    and loop: "sectionLoop code 4 emptyHeader = Inr (ByCondition, i, h)"
  shows "readEOF1Header code =
           (emptyHeader,
            Some (if codeSize h = 0 then ErrEOF1CodeSectionMissing else ErrEOF1InvalidTotalSize))"
proof (cases "codeSize h = 0")
  case True
  with assms show ?thesis
    by (simp add: readEOF1Header_after_loop)
next
  case False
  then have "0 < unat (codeSize h)"
    by (simp add: unat_gt_0)
  moreover from sectionLoop_ByCondition [OF loop] have "length code \<le> i" .
  ultimately have "i + unat (codeSize h) + unat (dataSize h) \<noteq> length code"
    by arith
  with assms False show ?thesis
    by (simp add: readEOF1Header_after_loop)
qed

theorem scan_exhausted_rejected_witness:
  "sectionLoop [0xEF, 0xCA, 0xFE, 0x01] 4 emptyHeader = Inr (ByCondition, 4, emptyHeader) \<and>
   readEOF1Header [0xEF, 0xCA, 0xFE, 0x01] = (emptyHeader, Some ErrEOF1CodeSectionMissing) \<and>
   sectionLoop [0xEF, 0xCA, 0xFE, 0x01, 0x01, 0x00, 0x02] 4 emptyHeader
     = Inr (ByCondition, 7, \<lparr>codeSize = 2, dataSize = 0\<rparr>) \<and>
   readEOF1Header [0xEF, 0xCA, 0xFE, 0x01, 0x01, 0x00, 0x02] = (emptyHeader, Some ErrEOF1InvalidTotalSize)"
proof -
  let ?c = "[0xEF, 0xCA, 0xFE, 0x01] :: byte list"
  let ?d = "[0xEF, 0xCA, 0xFE, 0x01, 0x01, 0x00, 0x02] :: byte list"
  have c: "hasFormatByte ?c" "hasEOFMagic ?c" "3 < length ?c" "?c ! 3 = eof1Version"
    "sectionLoop ?c 4 emptyHeader = Inr (ByCondition, 4, emptyHeader)"
    by (simp_all add: eval_defs)
  have d: "hasFormatByte ?d" "hasEOFMagic ?d" "3 < length ?d" "?d ! 3 = eof1Version"
    "sectionLoop ?d 4 emptyHeader = Inr (ByCondition, 7, \<lparr>codeSize = 2, dataSize = 0\<rparr>)"
    by (simp_all add: eval_defs)
  from scan_exhausted_rejected [OF c] scan_exhausted_rejected [OF d] c(5) d(5) show ?thesis
    by (simp add: emptyHeader_def)
qed

text \<open>
  C1, as the claim states it, fails: "any mismatch between the final cursor plus the two
  sizes and the buffer length makes the parser fail with InvalidTotalSize". On the six
  bytes EF CA FE 01 00 AA the loop breaks on the terminator at offset 4 with cursor 5 and
  no section recorded; 5 + 0 + 0 is not 6, and the parser returns
  \<open>ErrEOF1CodeSectionMissing\<close>, since the test for a missing code section comes first.
\<close>

theorem total_size_counterexample:
  "hasFormatByte [0xEF, 0xCA, 0xFE, 0x01, 0x00, 0xAA] \<and>
   hasEOFMagic [0xEF, 0xCA, 0xFE, 0x01, 0x00, 0xAA] \<and>
   [0xEF, 0xCA, 0xFE, 0x01, 0x00, 0xAA :: byte] ! 3 = eof1Version \<and>
   sectionLoop [0xEF, 0xCA, 0xFE, 0x01, 0x00, 0xAA] 4 emptyHeader = Inr (ByBreak, 5, emptyHeader) \<and>
   5 + unat (codeSize emptyHeader) + unat (dataSize emptyHeader)
     \<noteq> length [0xEF, 0xCA, 0xFE, 0x01, 0x00, 0xAA :: byte] \<and>
   readEOF1Header [0xEF, 0xCA, 0xFE, 0x01, 0x00, 0xAA] = (emptyHeader, Some ErrEOF1CodeSectionMissing) \<and>
   snd (readEOF1Header [0xEF, 0xCA, 0xFE, 0x01, 0x00, 0xAA]) \<noteq> Some ErrEOF1InvalidTotalSize"
  by (simp add: eval_defs)

text \<open>
  C1, amended. \<open>readEOF1Header\<close> returns a header with no error only if the loop was left
  by the break on a terminator byte and the cursor just past that byte plus the returned
  \<open>codeSize\<close> plus the returned \<open>dataSize\<close> equals the buffer length. When the loop
  ends with a code section recorded, any mismatch gives \<open>ErrEOF1InvalidTotalSize\<close>; when
  it ends with no code section recorded, the result is \<open>ErrEOF1CodeSectionMissing\<close>.
\<close>

theorem total_size_check:
  "(readEOF1Header code = (h, None) \<longrightarrow>
      (\<exists>i. sectionLoop code 4 emptyHeader = Inr (ByBreak, i, h) \<and>
           4 < i \<and> code ! (i - 1) = 0 \<and>
           i + unat (codeSize h) + unat (dataSize h) = length code)) \<and>
   (hasFormatByte code \<and> hasEOFMagic code \<and> 3 < length code \<and> code ! 3 = eof1Version \<and>
    sectionLoop code 4 emptyHeader = Inr (ex, j, h') \<and> codeSize h' \<noteq> 0 \<and>
    j + unat (codeSize h') + unat (dataSize h') \<noteq> length code
      \<longrightarrow> readEOF1Header code = (emptyHeader, Some ErrEOF1InvalidTotalSize)) \<and>
   (hasFormatByte code \<and> hasEOFMagic code \<and> 3 < length code \<and> code ! 3 = eof1Version \<and>
    sectionLoop code 4 emptyHeader = Inr (ex, j, h') \<and> codeSize h' = 0
      \<longrightarrow> readEOF1Header code = (emptyHeader, Some ErrEOF1CodeSectionMissing))"
proof (intro conjI impI)
  assume ok: "readEOF1Header code = (h, None)"
  from readEOF1Header_ok_run [OF ok] obtain ex i where
    loop: "sectionLoop code 4 emptyHeader = Inr (ex, i, h)" and cs: "codeSize h \<noteq> 0" and
    tot: "i + unat (codeSize h) + unat (dataSize h) = length code"
    by blast
  from loop_accept_shape [OF loop cs tot] have ex: "ex = ByBreak"
    by simp
  from sectionLoop_ByBreak [OF loop [unfolded ex]] have "4 < i" "code ! (i - 1) = 0"
    by simp_all
  with loop ex tot
  show "\<exists>i. sectionLoop code 4 emptyHeader = Inr (ByBreak, i, h) \<and>
           4 < i \<and> code ! (i - 1) = 0 \<and>
           i + unat (codeSize h) + unat (dataSize h) = length code"
    by blast
next
  assume "hasFormatByte code \<and> hasEOFMagic code \<and> 3 < length code \<and> code ! 3 = eof1Version \<and>
    sectionLoop code 4 emptyHeader = Inr (ex, j, h') \<and> codeSize h' \<noteq> 0 \<and>
    j + unat (codeSize h') + unat (dataSize h') \<noteq> length code"
  then show "readEOF1Header code = (emptyHeader, Some ErrEOF1InvalidTotalSize)"
    by (simp add: readEOF1Header_after_loop)
next
  assume "hasFormatByte code \<and> hasEOFMagic code \<and> 3 < length code \<and> code ! 3 = eof1Version \<and>
    sectionLoop code 4 emptyHeader = Inr (ex, j, h') \<and> codeSize h' = 0"
  then show "readEOF1Header code = (emptyHeader, Some ErrEOF1CodeSectionMissing)"
    by (simp add: readEOF1Header_after_loop)
qed

theorem total_size_check_witness:
  "readEOF1Header [0xEF, 0xCA, 0xFE, 0x01, 0x01, 0x00, 0x01, 0x00, 0x00] = (\<lparr>codeSize = 1, dataSize = 0\<rparr>, None) \<and>
   sectionLoop [0xEF, 0xCA, 0xFE, 0x01, 0x01, 0x00, 0x01, 0x00, 0x00] 4 emptyHeader
     = Inr (ByBreak, 8, \<lparr>codeSize = 1, dataSize = 0\<rparr>) \<and>
   sectionLoop [0xEF, 0xCA, 0xFE, 0x01, 0x01, 0x00, 0x01, 0x00, 0x00, 0xAA] 4 emptyHeader
     = Inr (ByBreak, 8, \<lparr>codeSize = 1, dataSize = 0\<rparr>) \<and>
   readEOF1Header [0xEF, 0xCA, 0xFE, 0x01, 0x01, 0x00, 0x01, 0x00, 0x00, 0xAA]
     = (emptyHeader, Some ErrEOF1InvalidTotalSize) \<and>
   sectionLoop [0xEF, 0xCA, 0xFE, 0x01, 0x00, 0xAA] 4 emptyHeader = Inr (ByBreak, 5, emptyHeader) \<and>
   readEOF1Header [0xEF, 0xCA, 0xFE, 0x01, 0x00, 0xAA] = (emptyHeader, Some ErrEOF1CodeSectionMissing)"
proof -
  let ?e = "[0xEF, 0xCA, 0xFE, 0x01, 0x00, 0xAA] :: byte list"
  let ?c = "[0xEF, 0xCA, 0xFE, 0x01, 0x01, 0x00, 0x01, 0x00, 0x00] :: byte list"
  let ?d = "[0xEF, 0xCA, 0xFE, 0x01, 0x01, 0x00, 0x01, 0x00, 0x00, 0xAA] :: byte list"
  let ?h = "\<lparr>codeSize = 1, dataSize = 0\<rparr>"
  have run: "readEOF1Header ?c = (?h, None)"
    by (simp add: eval_defs)
  have pre: "hasFormatByte ?d \<and> hasEOFMagic ?d \<and> 3 < length ?d \<and> ?d ! 3 = eof1Version \<and>
    sectionLoop ?d 4 emptyHeader = Inr (ByBreak, 8, ?h) \<and> codeSize ?h \<noteq> 0 \<and>
    8 + unat (codeSize ?h) + unat (dataSize ?h) \<noteq> length ?d"
    by (simp add: eval_defs)
  have pre3: "hasFormatByte ?e \<and> hasEOFMagic ?e \<and> 3 < length ?e \<and> ?e ! 3 = eof1Version \<and>
    sectionLoop ?e 4 emptyHeader = Inr (ByBreak, 5, emptyHeader) \<and> codeSize emptyHeader = 0"
    by (simp add: eval_defs)
  from total_size_check [of ?c ?h ByBreak 8 ?h, THEN conjunct1, rule_format, OF run]
  have one: "sectionLoop ?c 4 emptyHeader = Inr (ByBreak, 8, ?h)"
    by (auto simp: eval_defs)
  from total_size_check [of ?d ?h ByBreak 8 ?h, THEN conjunct2, THEN conjunct1, rule_format, OF pre]
  have two: "readEOF1Header ?d = (emptyHeader, Some ErrEOF1InvalidTotalSize)" .
  from total_size_check [of ?e ?h ByBreak 5 emptyHeader, THEN conjunct2, THEN conjunct2, rule_format, OF pre3]
  have three: "readEOF1Header ?e = (emptyHeader, Some ErrEOF1CodeSectionMissing)" .
  from run one pre two pre3 three show ?thesis
    by simp
qed

section \<open>The unchecked reader on accepted buffers\<close>

text \<open>
  C10. Every buffer that \<open>readEOF1Header\<close> accepts with header \<open>h\<close> has at least 9
  bytes, the kind byte 1 at offset 4, a non-zero \<open>codeSize h\<close> equal to the big-endian
  value of the bytes at offsets 5 and 6, and \<open>dataSize h\<close> is non-zero iff the byte at
  offset 7 is 2; then \<open>dataSize h\<close> is the big-endian value of the bytes at offsets 8 and
  9 and the buffer has at least 12 bytes.
\<close>

theorem accepted_buffer_shape:
  assumes ok: "readEOF1Header code = (h, None)"
  shows "9 \<le> length code \<and> code ! 4 = 1 \<and> codeSize h \<noteq> 0 \<and>
         unat (codeSize h) = 256 * unat (code ! 5) + unat (code ! 6) \<and>
         (dataSize h \<noteq> 0 \<longleftrightarrow> code ! 7 = 2) \<and>
         (code ! 7 = 2 \<longrightarrow>
            unat (dataSize h) = 256 * unat (code ! 8) + unat (code ! 9) \<and> 12 \<le> length code)"
proof -
  from readEOF1Header_ok_run [OF ok] obtain ex i where
    loop: "sectionLoop code 4 emptyHeader = Inr (ex, i, h)" and cs: "codeSize h \<noteq> 0" and
    tot: "i + unat (codeSize h) + unat (dataSize h) = length code"
    by blast
  note shape = loop_accept_shape [OF loop cs tot]
  from shape have len7: "7 < length code" and k4: "code ! 4 = 1"
    and csv: "codeSize h = Uint16 (sliceOf code 5 7)"
    by simp_all
  from cs have cpos: "0 < unat (codeSize h)"
    by (simp add: unat_gt_0)
  have cval: "unat (codeSize h) = 256 * unat (code ! 5) + unat (code ! 6)"
    using Uint16_at [of 5 code] len7 by (simp add: csv)
  from shape consider
      (nodata) "code ! 7 = 0" "i = 8" "dataSize h = 0"
    | (data) "code ! 7 = 2" "10 < length code" "i = 11" "dataSize h \<noteq> 0"
        "dataSize h = Uint16 (sliceOf code 8 10)"
    by blast
  then show ?thesis
  proof cases
    case nodata
    from tot cpos nodata have "9 \<le> length code" by arith
    with nodata k4 cs cval show ?thesis by simp
  next
    case data
    have dval: "unat (dataSize h) = 256 * unat (code ! 8) + unat (code ! 9)"
      using Uint16_at [of 8 code] data(2) by (simp add: data(5))
    from tot cpos data(3) have "12 \<le> length code" by arith
    with data(1,4) k4 cs cval dval show ?thesis by simp
  qed
qed

theorem accepted_buffer_shape_witness:
  "readEOF1Header [0xEF, 0xCA, 0xFE, 0x01, 0x01, 0x00, 0x02, 0x02, 0x00, 0x01, 0x00, 0x60, 0x00, 0xAA]
     = (\<lparr>codeSize = 2, dataSize = 1\<rparr>, None) \<and>
   12 \<le> length [0xEF, 0xCA, 0xFE, 0x01, 0x01, 0x00, 0x02, 0x02, 0x00, 0x01, 0x00, 0x60, 0x00, 0xAA :: byte] \<and>
   [0xEF, 0xCA, 0xFE, 0x01, 0x01, 0x00, 0x02, 0x02, 0x00, 0x01, 0x00, 0x60, 0x00, 0xAA :: byte] ! 7 = 2 \<and>
   unat (codeSize \<lparr>codeSize = 2, dataSize = 1\<rparr>) = 256 * unat (0x00 :: byte) + unat (0x02 :: byte) \<and>
   unat (dataSize \<lparr>codeSize = 2, dataSize = 1\<rparr>) = 256 * unat (0x00 :: byte) + unat (0x01 :: byte)"
proof -
  let ?c = "[0xEF, 0xCA, 0xFE, 0x01, 0x01, 0x00, 0x02, 0x02, 0x00, 0x01, 0x00, 0x60, 0x00, 0xAA] :: byte list"
  have run: "readEOF1Header ?c = (\<lparr>codeSize = 2, dataSize = 1\<rparr>, None)"
    by (simp add: eval_defs)
  from accepted_buffer_shape [OF run] run show ?thesis
    by simp
qed

text \<open>
  C2. On every buffer that \<open>readEOF1Header\<close> accepts with header \<open>h\<close>,
  \<open>readValidEOF1Header\<close> makes no out-of-range read and returns \<open>h\<close>.
\<close>

theorem readValidEOF1Header_agrees:
  assumes ok: "readEOF1Header code = (h, None)"
  shows "readValidEOF1Header code = Some h"
proof -
  from readEOF1Header_ok_run [OF ok] obtain ex i where
    loop: "sectionLoop code 4 emptyHeader = Inr (ex, i, h)" and cs: "codeSize h \<noteq> 0" and
    tot: "i + unat (codeSize h) + unat (dataSize h) = length code"
    by blast
  note shape = loop_accept_shape [OF loop cs tot]
  have offs: "3 + length eofMagic = 5"
    by (simp add: length_eofMagic)
  from shape consider
      (nodata) "code ! 7 = 0" "7 < length code" "dataSize h = 0"
        "codeSize h = Uint16 (sliceOf code 5 7)"
    | (data) "code ! 7 = 2" "10 < length code" "dataSize h = Uint16 (sliceOf code 8 10)"
        "codeSize h = Uint16 (sliceOf code 5 7)"
    by blast
  then show ?thesis
  proof cases
    case nodata
    then have "h = emptyHeader\<lparr>codeSize := Uint16 (sliceOf code 5 7)\<rparr>"
      by (simp add: emptyHeader_def)
    with nodata show ?thesis
      by (simp add: readValidEOF1Header_def offs Let_def)
  next
    case data
    then have "h = emptyHeader\<lparr>codeSize := Uint16 (sliceOf code 5 7),
                              dataSize := Uint16 (sliceOf code 8 10)\<rparr>"
      by (simp add: emptyHeader_def)
    with data show ?thesis
      by (simp add: readValidEOF1Header_def offs Let_def)
  qed
qed

theorem readValidEOF1Header_agrees_witness:
  "readEOF1Header [0xEF, 0xCA, 0xFE, 0x01, 0x01, 0x00, 0x02, 0x02, 0x00, 0x01, 0x00, 0x60, 0x00, 0xAA]
     = (\<lparr>codeSize = 2, dataSize = 1\<rparr>, None) \<and>
   readValidEOF1Header [0xEF, 0xCA, 0xFE, 0x01, 0x01, 0x00, 0x02, 0x02, 0x00, 0x01, 0x00, 0x60, 0x00, 0xAA]
     = Some \<lparr>codeSize = 2, dataSize = 1\<rparr>"
proof -
  let ?c = "[0xEF, 0xCA, 0xFE, 0x01, 0x01, 0x00, 0x02, 0x02, 0x00, 0x01, 0x00, 0x60, 0x00, 0xAA] :: byte list"
  have run: "readEOF1Header ?c = (\<lparr>codeSize = 2, dataSize = 1\<rparr>, None)"
    by (simp add: eval_defs)
  from readValidEOF1Header_agrees [OF run] run show ?thesis
    by simp
qed

end
